theory Spec2Isabelle
  imports Main
begin

section \<open>Strings and paths\<close>

text \<open>
  Python strings are modelled as \<^typ>\<open>string\<close>, read as UTF-8 bytes. The path functions
  below only look for the ASCII characters \<open>/\<close> and \<open>.\<close>, which never occur inside a
  multi-byte UTF-8 sequence, so they agree with \<open>posixpath\<close> on code points.
\<close>

type_synonym path = string

definition startswith :: "string \<Rightarrow> string \<Rightarrow> bool" where
  "startswith s pre = (take (length pre) s = pre)"

definition endswith :: "string \<Rightarrow> string \<Rightarrow> bool" where
  "endswith s suf = (length suf \<le> length s \<and> drop (length s - length suf) s = suf)"

definition rfind1 :: "char \<Rightarrow> string \<Rightarrow> nat" where
  \<comment> \<open>\<open>p.rfind(c) + 1\<close>: one past the last occurrence of \<open>c\<close>, and 0 when there is none.\<close>
  "rfind1 c p = length p - length (takeWhile (\<lambda>x. x \<noteq> c) (rev p))"

definition path_join :: "path \<Rightarrow> path \<Rightarrow> path" where
  \<comment> \<open>\<open>os.path.join(a, b)\<close> of \<open>posixpath\<close>, two arguments.\<close>
  "path_join a b =
     (if startswith b ''/'' then b
      else if a = [] \<or> endswith a ''/'' then a @ b
      else a @ ''/'' @ b)"

definition basename :: "path \<Rightarrow> path" where
  \<comment> \<open>\<open>i = p.rfind('/') + 1; return p[i:]\<close>\<close>
  "basename p = drop (rfind1 (CHR ''/'') p) p"

definition dirname :: "path \<Rightarrow> path" where
  \<comment> \<open>\<open>head = p[:i]; if head and head != '/' * len(head): head = head.rstrip('/')\<close>\<close>
  "dirname p =
     (let head = take (rfind1 (CHR ''/'') p) p
      in if head \<noteq> [] \<and> head \<noteq> replicate (length head) (CHR ''/'')
         then rev (dropWhile (\<lambda>x. x = CHR ''/'') (rev head))
         else head)"

definition splitext :: "path \<Rightarrow> path \<times> string" where
  \<comment> \<open>\<open>genericpath._splitext\<close>: split at the last dot of the last component, unless that
      component has nothing but dots before it (\<open>.bashrc\<close>, \<open>..docx\<close>).\<close>
  "splitext p =
     (let sepEnd = rfind1 (CHR ''/'') p; dotEnd = rfind1 (CHR ''.'') p
      in if sepEnd < dotEnd \<and>
            list_ex (\<lambda>x. x \<noteq> CHR ''.'') (take (dotEnd - 1 - sepEnd) (drop sepEnd p))
         then (take (dotEnd - 1) p, drop (dotEnd - 1) p)
         else (p, []))"

fun str_nat :: "nat \<Rightarrow> string" where
  "str_nat n =
     (if n < 10 then [''0123456789'' ! n]
      else str_nat (n div 10) @ [''0123456789'' ! (n mod 10)])"

declare str_nat.simps [simp del]

definition quoted :: "string \<Rightarrow> string" where
  \<comment> \<open>\<open>'{s}'\<close> in an f-string\<close>
  "quoted s = [CHR 0x27] @ s @ [CHR 0x27]"

definition check_mark :: string where
  \<comment> \<open>U+2713\<close>
  "check_mark = [CHR 0xE2, CHR 0x9C, CHR 0x93]"

definition ballot_x :: string where
  \<comment> \<open>U+2717\<close>
  "ballot_x = [CHR 0xE2, CHR 0x9C, CHR 0x97]"

definition cross_mark :: string where
  \<comment> \<open>U+274C\<close>
  "cross_mark = [CHR 0xE2, CHR 0x9D, CHR 0x8C]"

section \<open>Exceptions, the world and the external collaborators\<close>

text \<open>
  Only subclasses of \<open>Exception\<close> are modelled: they are what the library calls of the
  two scripts raise. \<open>OtherException\<close> stands for every class that none of the
  \<open>except\<close> clauses of the scripts names (\<open>UnicodeDecodeError\<close>, \<open>RuntimeError\<close>, ...).
  \<open>sys.exit\<close> is not an exception of this type but a control outcome of its own.
\<close>

datatype exc_class =
    SubprocessError | CalledProcessError
  | OSError | FileNotFoundError | PermissionError | FileExistsError
  | ImportError | NameError | OtherException

datatype exn = Exn (cls: exc_class) (msg: string)

definition is_SubprocessError :: "exn \<Rightarrow> bool" where
  "is_SubprocessError e = (cls e = SubprocessError \<or> cls e = CalledProcessError)"

definition is_FileNotFoundError :: "exn \<Rightarrow> bool" where
  "is_FileNotFoundError e = (cls e = FileNotFoundError)"


text \<open>The calls that leave the process, in the order they are made.\<close>

datatype call =
    Makedirs path bool
  | ReadFile path
  | WriteFile path
  | Remove path
  | Run "string list"
  | ConvertFile path string path "string list"

record world =
  files :: "path \<Rightarrow> string option"
  dirs :: "path set"
  stdout :: "string list"
  trace :: "call list"

text \<open>
  The libraries and programs the scripts call are parameters: nothing is assumed about
  what they return, only that each call returns or raises (a subprocess that never exits is
  not modelled). \<open>convert_file\<close> and \<open>subprocess_run\<close> see the files and return the files
  they leave behind, together with the exception they raise, if any. \<open>rglob root pattern\<close>
  is \<open>[str(p) for p in Path(root).rglob(pattern)]\<close>, \<open>importable after m\<close> tells whether
  \<open>import m\<close> succeeds before (\<open>False\<close>) or after (\<open>True\<close>) the pip call of the import
  guard, and \<open>file_path\<close> and \<open>executable\<close> are \<open>__file__\<close> and \<open>sys.executable\<close>.
  \<open>stdout\<close> holds the texts of the \<open>print\<close> calls that returned, in order.
  \<open>print_error env s\<close> is the exception \<open>print(s)\<close> raises, if any: a
  \<open>UnicodeEncodeError\<close> when the encoding of the standard output has no code for a
  character of \<open>s\<close>, an \<open>OSError\<close> when the output is closed.
\<close>

record env =
  abspath :: "path \<Rightarrow> path"
  file_path :: path
  executable :: path
  importable :: "bool \<Rightarrow> string \<Rightarrow> bool"
  pip_install :: "string list \<Rightarrow> exn option"
  get_pandoc_version :: "exn + string"
  listdir :: "path \<Rightarrow> exn + string list"
  convert_file ::
    "path \<Rightarrow> string \<Rightarrow> path \<Rightarrow> string list \<Rightarrow> (path \<Rightarrow> string option)
      \<Rightarrow> exn option \<times> (path \<Rightarrow> string option)"
  rglob :: "path \<Rightarrow> string \<Rightarrow> path list"
  mkdir_error :: "path \<Rightarrow> exn option"
  read_text :: "path \<Rightarrow> (path \<Rightarrow> string option) \<Rightarrow> exn + string"
  write_error :: "path \<Rightarrow> exn option"
  markdown_markdown :: "string \<Rightarrow> string list \<Rightarrow> exn + string"
  template_render :: "string \<Rightarrow> string \<Rightarrow> exn + string"
  b64encode :: "string \<Rightarrow> string"
  subprocess_run ::
    "string list \<Rightarrow> (path \<Rightarrow> string option) \<Rightarrow> exn option \<times> (path \<Rightarrow> string option)"
  which :: "string \<Rightarrow> path option"
  print_error :: "string \<Rightarrow> exn option"

type_synonym 'a py = "world \<Rightarrow> (exn + 'a) \<times> world"

definition ret :: "'a \<Rightarrow> 'a py" where
  "ret x = (\<lambda>w. (Inr x, w))"

definition raise :: "exn \<Rightarrow> 'a py" where
  "raise e = (\<lambda>w. (Inl e, w))"

definition bind :: "'a py \<Rightarrow> ('a \<Rightarrow> 'b py) \<Rightarrow> 'b py" where
  "bind m f = (\<lambda>w. case m w of (Inl e, w') \<Rightarrow> (Inl e, w') | (Inr x, w') \<Rightarrow> f x w')"

definition try_except :: "'a py \<Rightarrow> (exn \<Rightarrow> bool) \<Rightarrow> (exn \<Rightarrow> 'a py) \<Rightarrow> 'a py" where
  \<comment> \<open>\<open>try: m  except <classes> as e: h e\<close>; an exception of another class goes on, and
      so does one that the handler itself raises.\<close>
  "try_except m catches h =
     (\<lambda>w. case m w of
        (Inl e, w') \<Rightarrow> (if catches e then h e w' else (Inl e, w'))
      | (Inr x, w') \<Rightarrow> (Inr x, w'))"

definition of_sum :: "exn + 'a \<Rightarrow> 'a py" where
  "of_sum r = (\<lambda>w. (r, w))"

definition log_call :: "call \<Rightarrow> world \<Rightarrow> world" where
  "log_call c w = w\<lparr>trace := trace w @ [c]\<rparr>"

definition print_line :: "string \<Rightarrow> world \<Rightarrow> world" where
  "print_line s w = w\<lparr>stdout := stdout w @ [s]\<rparr>"

definition pr :: "env \<Rightarrow> string \<Rightarrow> unit py" where
  \<comment> \<open>\<open>print(s)\<close>\<close>
  "pr env s =
     (\<lambda>w. case print_error env s of
            None \<Rightarrow> (Inr (), print_line s w)
          | Some e \<Rightarrow> (Inl e, w))"

definition path_exists :: "world \<Rightarrow> path \<Rightarrow> bool" where
  "path_exists w p = (p \<in> dom (files w) \<or> p \<in> dirs w)"

section \<open>Pipeline 1: docx\_to\_md.py\<close>







definition docx_md_path :: "path \<Rightarrow> string \<Rightarrow> path" where
  \<comment> \<open>Lines 36 and 39: \<open>base_name = os.path.splitext(filename)[0]\<close>,
      \<open>md_path = os.path.join(directory, f"{base_name}.md")\<close>.\<close>
  "docx_md_path directory filename = path_join directory (fst (splitext filename) @ ''.md'')"

definition pypandoc_convert_file ::
  "env \<Rightarrow> path \<Rightarrow> string \<Rightarrow> path \<Rightarrow> string list \<Rightarrow> unit py" where
  \<comment> \<open>\<open>pypandoc.convert_file(src, fmt, outputfile=dst, extra_args=args)\<close>\<close>
  "pypandoc_convert_file env src fmt dst args w =
     (case convert_file env src fmt dst args (files w) of
        (None, fs) \<Rightarrow> (Inr (), log_call (ConvertFile src fmt dst args) (w\<lparr>files := fs\<rparr>))
      | (Some e, fs) \<Rightarrow> (Inl e, log_call (ConvertFile src fmt dst args) (w\<lparr>files := fs\<rparr>)))"

definition convert_one :: "env \<Rightarrow> path \<Rightarrow> string \<Rightarrow> unit py" where
  \<comment> \<open>The body of the loop for a name that ends in \<open>.docx\<close>, lines 35 to 50: the print of
      line 41 is outside the \<open>try\<close>, the one of line 48 inside, the one of line 50 in the
      handler.\<close>
  "convert_one env directory filename =
     (let docx_path = path_join directory filename;
          md_path = docx_md_path directory filename
      in bind (pr env (''Converting '' @ quoted docx_path @ '' to '' @ quoted md_path @ ''...''))
         (\<lambda>_. try_except
                 (let extra_args = [''--wrap=none'']
                  in bind (pypandoc_convert_file env docx_path ''gfm'' md_path extra_args)
                     (\<lambda>_. pr env (''Successfully converted '' @ quoted filename @ ''.'')))
                 (\<lambda>e. True)
                 (\<lambda>e. pr env (''Error converting '' @ quoted filename @ '': '' @ msg e))))"

fun docx_loop :: "env \<Rightarrow> path \<Rightarrow> string list \<Rightarrow> bool \<Rightarrow> bool py" where
  "docx_loop env directory [] files_found w = (Inr files_found, w)"
| "docx_loop env directory (filename # rest) files_found w =
     (if endswith filename ''.docx''
      then (case convert_one env directory filename w of
              (Inl e, w') \<Rightarrow> (Inl e, w')
            | (Inr _, w') \<Rightarrow> docx_loop env directory rest True w')
      else docx_loop env directory rest files_found w)"

definition convert_docx_to_markdown :: "env \<Rightarrow> path \<Rightarrow> bool py" where
  \<comment> \<open>The Python function returns \<open>None\<close>; the model returns the final value of its
      local \<open>files_found\<close>.\<close>
  "convert_docx_to_markdown env directory =
     bind (pr env (''Scanning for .docx files in '' @ quoted (abspath env directory) @ ''...''))
       (\<lambda>_. bind (of_sum (listdir env directory))
       (\<lambda>names. bind (docx_loop env directory names False)
       (\<lambda>files_found.
          if files_found then ret files_found
          else bind (pr env ''No .docx files found in the current directory.'')
                 (\<lambda>_. ret files_found))))"


section \<open>Pipeline 2: md2pdf.py\<close>

text \<open>
  A function body looks its free names up in the namespace of the module when it runs. The
  functions below take that namespace as \<open>names\<close>; for the file as it is, it is
  \<open>md2pdf_imports\<close>, and the script passes exactly that.
\<close>

definition md2pdf_imports :: "string list" where
  \<comment> \<open>The names the module binds by its imports, lines 3 to 16.\<close>
  "md2pdf_imports =
     [''os'', ''sys'', ''base64'', ''subprocess'', ''Path'', ''markdown'', ''jinja2'']"

definition global_name :: "string list \<Rightarrow> string \<Rightarrow> unit py" where
  \<comment> \<open>Evaluating a module name in a function body: unbound names raise \<open>NameError\<close>.\<close>
  "global_name names n =
     (if n \<in> set names then ret ()
      else raise (Exn NameError (''name '' @ quoted n @ '' is not defined'')))"

definition os_makedirs :: "env \<Rightarrow> path \<Rightarrow> unit py" where
  \<comment> \<open>\<open>os.makedirs(p, exist_ok=True)\<close>. Intermediate directories are not tracked.\<close>
  "os_makedirs env p w =
     (if p \<in> dirs w then (Inr (), log_call (Makedirs p True) w)
      else if p \<in> dom (files w) then
        (Inl (Exn FileExistsError (''[Errno 17] File exists: '' @ quoted p)),
         log_call (Makedirs p False) w)
      else case mkdir_error env p of
             Some e \<Rightarrow> (Inl e, log_call (Makedirs p False) w)
           | None \<Rightarrow> (Inr (), log_call (Makedirs p True) (w\<lparr>dirs := insert p (dirs w)\<rparr>)))"

definition open_read :: "env \<Rightarrow> path \<Rightarrow> string py" where
  \<comment> \<open>\<open>with open(p, "r", encoding="utf-8") as f: f.read()\<close>\<close>
  "open_read env p w = (read_text env p (files w), log_call (ReadFile p) w)"

definition open_write :: "env \<Rightarrow> path \<Rightarrow> string \<Rightarrow> unit py" where
  \<comment> \<open>\<open>with open(p, "wb") as f: f.write(content)\<close>\<close>
  "open_write env p content w =
     (case write_error env p of
        Some e \<Rightarrow> (Inl e, log_call (WriteFile p) w)
      | None \<Rightarrow> (Inr (), log_call (WriteFile p) (w\<lparr>files := (files w)(p \<mapsto> content)\<rparr>)))"

definition os_remove :: "path \<Rightarrow> unit py" where
  "os_remove p w =
     (if p \<in> dom (files w)
      then (Inr (), log_call (Remove p) (w\<lparr>files := (files w)(p := None)\<rparr>))
      else (Inl (Exn FileNotFoundError (''[Errno 2] No such file or directory: '' @ quoted p)),
            log_call (Remove p) w))"

definition run :: "env \<Rightarrow> string list \<Rightarrow> unit py" where
  \<comment> \<open>\<open>subprocess.run(cmd, check=True, capture_output=True)\<close>\<close>
  "run env cmd w =
     (case subprocess_run env cmd (files w) of
        (None, fs) \<Rightarrow> (Inr (), log_call (Run cmd) (w\<lparr>files := fs\<rparr>))
      | (Some e, fs) \<Rightarrow> (Inl e, log_call (Run cmd) (w\<lparr>files := fs\<rparr>)))"

definition chrome_paths :: "path list" where
  "chrome_paths =
     [''/Applications/Google Chrome.app/Contents/MacOS/Google Chrome'',
      ''/usr/bin/google-chrome'',
      ''/usr/bin/chromium'']"

definition chrome_cmd :: "env \<Rightarrow> path \<Rightarrow> string \<Rightarrow> path \<Rightarrow> string list" where
  \<comment> \<open>Lines 202 to 209; \<open>b64encode env s\<close> is \<open>base64.b64encode(s.encode()).decode()\<close>.\<close>
  "chrome_cmd env chrome_path html_content output_path =
     [chrome_path, ''--headless'', ''--disable-gpu'', ''--no-sandbox'',
      ''--print-to-pdf='' @ output_path,
      ''data:text/html;base64,'' @ b64encode env html_content]"

definition firefox_cmd :: "env \<Rightarrow> path \<Rightarrow> string list" where
  \<comment> \<open>Lines 222 to 227.\<close>
  "firefox_cmd env output_path =
     [''firefox'', ''--headless'', ''--print-to-pdf='' @ output_path, abspath env ''temp.html'']"

definition chrome_attempt :: "env \<Rightarrow> string \<Rightarrow> path \<Rightarrow> bool py" where
  \<comment> \<open>Lines 189 to 214. \<open>True\<close>: the function has returned \<open>True\<close>; \<open>False\<close>: control
      goes on below the block.\<close>
  "chrome_attempt env html_content output_path =
     try_except
       (\<lambda>w. case find (path_exists w) chrome_paths of
               None \<Rightarrow> (Inr False, w)
             | Some chrome_path \<Rightarrow>
                 bind (run env (chrome_cmd env chrome_path html_content output_path))
                   (\<lambda>_. bind (pr env (check_mark @ '' Created PDF using Chrome: '' @ output_path))
                   (\<lambda>_. ret True)) w)
       (\<lambda>e. is_SubprocessError e \<or> is_FileNotFoundError e)
       (\<lambda>e. bind (pr env (''Chrome conversion failed: '' @ msg e)) (\<lambda>_. ret False))"

definition firefox_attempt :: "string list \<Rightarrow> env \<Rightarrow> string \<Rightarrow> path \<Rightarrow> bool py" where
  \<comment> \<open>Lines 217 to 234, with the same reading of the result.\<close>
  "firefox_attempt names env html_content output_path =
     try_except
       (bind (global_name names ''shutil'') (\<lambda>_.
          case which env ''firefox'' of
            None \<Rightarrow> ret False
          | Some _ \<Rightarrow>
              bind (open_write env ''temp.html'' html_content) (\<lambda>_.
              bind (run env (firefox_cmd env output_path)) (\<lambda>_.
              bind (os_remove ''temp.html'') (\<lambda>_.
              bind (pr env (check_mark @ '' Created PDF using Firefox: '' @ output_path)) (\<lambda>_.
              ret True))))))
       (\<lambda>e. is_SubprocessError e \<or> is_FileNotFoundError e)
       (\<lambda>e. bind (pr env (''Firefox conversion failed: '' @ msg e)) (\<lambda>_ w.
              if path_exists w ''temp.html''
              then bind (os_remove ''temp.html'') (\<lambda>_. ret False) w
              else ret False w))"

definition create_pdf_from_html :: "string list \<Rightarrow> env \<Rightarrow> string \<Rightarrow> path \<Rightarrow> bool py" where
  "create_pdf_from_html names env html_content output_path =
     bind (chrome_attempt env html_content output_path) (\<lambda>returned.
       if returned then ret True
       else bind (firefox_attempt names env html_content output_path) (\<lambda>returned.
         if returned then ret True
         else bind (pr env (cross_mark
                        @ '' Failed to convert HTML to PDF. Please install Chrome or Firefox.''))
                (\<lambda>_. ret False)))"

definition extensions :: "string list" where
  "extensions =
     [''markdown.extensions.tables'',
      ''markdown.extensions.fenced_code'',
      ''markdown.extensions.codehilite'',
      ''markdown.extensions.toc'',
      ''markdown.extensions.nl2br'',
      ''markdown.extensions.sane_lists'',
      ''markdown.extensions.smarty'']"

definition pdf_path_of :: "path \<Rightarrow> path \<Rightarrow> path" where
  \<comment> \<open>Lines 248 and 249.\<close>
  "pdf_path_of output_dir md_file_path =
     (let base_name = fst (splitext (basename md_file_path))
      in path_join output_dir (base_name @ ''.pdf''))"

definition convert_md_to_pdf_try :: "string list \<Rightarrow> env \<Rightarrow> path \<Rightarrow> path \<Rightarrow> bool py" where
  \<comment> \<open>The \<open>try\<close> block, lines 244 to 280. \<open>template_render env title content\<close> is
      \<open>jinja2.Template(HTML_TEMPLATE).render(title=title, content=content)\<close>.\<close>
  "convert_md_to_pdf_try names env md_file_path output_dir =
     bind (os_makedirs env output_dir) (\<lambda>_.
     let base_name = fst (splitext (basename md_file_path));
         pdf_path = path_join output_dir (base_name @ ''.pdf'')
     in
     bind (open_read env md_file_path) (\<lambda>md_content.
     bind (of_sum (markdown_markdown env md_content extensions)) (\<lambda>html_body.
     bind (of_sum (template_render env base_name html_body)) (\<lambda>html.
     bind (create_pdf_from_html names env html pdf_path) (\<lambda>result.
       if result
       then bind (pr env (check_mark @ '' Converted '' @ basename md_file_path @ '' to ''
                          @ pdf_path))
              (\<lambda>_. ret True)
       else ret False)))))"

definition convert_md_to_pdf :: "string list \<Rightarrow> env \<Rightarrow> path \<Rightarrow> path \<Rightarrow> bool py" where
  \<comment> \<open>Lines 243 to 284: the handler of line 282 takes every exception of the block; what
      its own print raises leaves the function.\<close>
  "convert_md_to_pdf names env md_file_path output_dir =
     try_except (convert_md_to_pdf_try names env md_file_path output_dir)
       (\<lambda>e. True)
       (\<lambda>e. bind (pr env (ballot_x @ '' Error converting '' @ md_file_path @ '': '' @ msg e))
              (\<lambda>_. ret False))"

fun convert_all ::
  "string list \<Rightarrow> env \<Rightarrow> path \<Rightarrow> path list \<Rightarrow> nat \<Rightarrow> nat \<Rightarrow> (nat \<times> nat) py" where
  \<comment> \<open>The loop of lines 301 to 305.\<close>
  "convert_all names env output_dir [] successful failed w = (Inr (successful, failed), w)"
| "convert_all names env output_dir (md_file_path # rest) successful failed w =
     (case convert_md_to_pdf names env md_file_path output_dir w of
        (Inl e, w') \<Rightarrow> (Inl e, w')
      | (Inr True, w') \<Rightarrow> convert_all names env output_dir rest (successful + 1) failed w'
      | (Inr False, w') \<Rightarrow> convert_all names env output_dir rest successful (failed + 1) w')"

definition scan_and_convert ::
  "string list \<Rightarrow> env \<Rightarrow> path \<Rightarrow> path \<Rightarrow> (nat \<times> nat) py" where
  "scan_and_convert names env folder_path output_dir =
     (let md_files = rglob env folder_path ''*.md''
      in bind (pr env (''Found '' @ str_nat (length md_files) @ '' markdown files in ''
                       @ folder_path))
         (\<lambda>_. bind (convert_all names env output_dir md_files 0 0)
         (\<lambda>(successful, failed).
            bind (pr env ([CHR 0x0A] @ ''Summary: '' @ str_nat successful
                          @ '' files converted successfully, '' @ str_nat failed
                          @ '' files failed''))
            (\<lambda>_. ret (successful, failed)))))"



section \<open>Vocabulary of the properties, and sample environments\<close>

definition shutil_error :: exn where
  "shutil_error = Exn NameError (''name '' @ quoted ''shutil'' @ '' is not defined'')"


definition prints_ok :: "env \<Rightarrow> bool" where
  \<comment> \<open>The standard output takes every line.\<close>
  "prints_ok env = (\<forall>s. print_error env s = None)"




definition render_document :: "env \<Rightarrow> path \<Rightarrow> (path \<Rightarrow> string option) \<Rightarrow> exn + string" where
  \<comment> \<open>Lines 252 to 273: read the file, render it to HTML, fill the template.\<close>
  "render_document env md_file_path fs =
     (case read_text env md_file_path fs of
        Inl e \<Rightarrow> Inl e
      | Inr md_content \<Rightarrow>
          (case markdown_markdown env md_content extensions of
             Inl e \<Rightarrow> Inl e
           | Inr html_body \<Rightarrow>
               template_render env (fst (splitext (basename md_file_path))) html_body))"

definition converted_line :: "path \<Rightarrow> path \<Rightarrow> string" where
  "converted_line output_dir md_file_path =
     check_mark @ '' Converted '' @ basename md_file_path @ '' to ''
       @ pdf_path_of output_dir md_file_path"

definition created_line :: "path \<Rightarrow> path \<Rightarrow> string" where
  "created_line output_dir md_file_path =
     check_mark @ '' Created PDF using Chrome: '' @ pdf_path_of output_dir md_file_path"

definition error_line :: "path \<Rightarrow> exn \<Rightarrow> string" where
  "error_line md_file_path e = ballot_x @ '' Error converting '' @ md_file_path @ '': '' @ msg e"


fun outcomes :: "string list \<Rightarrow> env \<Rightarrow> path \<Rightarrow> path list \<Rightarrow> world \<Rightarrow> bool list" where
  \<comment> \<open>What \<open>convert_md_to_pdf\<close> returns for the files of a batch, in order, up to the first
      call that raises.\<close>
  "outcomes names env output_dir [] w = []"
| "outcomes names env output_dir (p # ps) w =
     (case convert_md_to_pdf names env p output_dir w of
        (Inl e, w') \<Rightarrow> []
      | (Inr b, w') \<Rightarrow> b # outcomes names env output_dir ps w')"




definition scanning_line :: "env \<Rightarrow> path \<Rightarrow> string" where
  "scanning_line env directory =
     ''Scanning for .docx files in '' @ quoted (abspath env directory) @ ''...''"


definition not_found_line :: string where
  "not_found_line = ''No .docx files found in the current directory.''"


definition demo_env :: env where
  "demo_env =
     \<lparr>abspath = (\<lambda>p. path_join ''/home/u/repo/tools/pdf'' p),
      file_path = ''md2pdf.py'',
      executable = ''/usr/bin/python3'',
      importable = (\<lambda>_ _. True),
      pip_install = (\<lambda>_. None),
      get_pandoc_version = Inr ''3.1.9'',
      listdir = (\<lambda>_. Inr [''a.docx'', ''notes.txt'', ''b.docx'']),
      convert_file =
        (\<lambda>src fmt dst args fs.
           if endswith src ''/a.docx'' then (Some (Exn OtherException ''Pandoc died''), fs)
           else (None, fs(dst \<mapsto> ''markdown''))),
      rglob = (\<lambda>_ _. [''/home/u/repo/a/x.md'', ''/home/u/repo/b/x.md'']),
      mkdir_error = (\<lambda>_. None),
      read_text =
        (\<lambda>p fs. case fs p of
                  None \<Rightarrow> Inl (Exn FileNotFoundError (''No such file: '' @ p))
                | Some s \<Rightarrow> Inr s),
      write_error = (\<lambda>_. None),
      markdown_markdown = (\<lambda>s _. Inr (''<p>'' @ s @ ''</p>'')),
      template_render = (\<lambda>t c. Inr (''<title>'' @ t @ ''</title>'' @ c)),
      b64encode = (\<lambda>s. s),
      subprocess_run = (\<lambda>cmd fs. (None, fs(drop 15 (cmd ! 4) \<mapsto> ''%PDF '' @ drop 22 (cmd ! 5)))),
      which = (\<lambda>_. None),
      print_error = (\<lambda>_. None)\<rparr>"


definition demo_world :: world where
  "demo_world =
     \<lparr>files = [''/home/u/repo/a/x.md'' \<mapsto> ''A'', ''/home/u/repo/b/x.md'' \<mapsto> ''B'',
               ''/usr/bin/google-chrome'' \<mapsto> ''ELF''],
      dirs = {}, stdout = [], trace = []\<rparr>"

definition bare_world :: world where
  \<comment> \<open>No browser installed, and a PDF left at the target by an earlier run.\<close>
  "bare_world =
     \<lparr>files = [''/home/u/repo/a/x.md'' \<mapsto> ''A'', ''/out/x.pdf'' \<mapsto> ''%PDF old''],
      dirs = {''/out''}, stdout = [], trace = []\<rparr>"


definition txt_only_env :: env where
  "txt_only_env = demo_env\<lparr>listdir := (\<lambda>_. Inr [''notes.txt''])\<rparr>"

definition empty_dir_env :: env where
  "empty_dir_env = demo_env\<lparr>listdir := (\<lambda>_. Inr [])\<rparr>"

definition found_line :: "env \<Rightarrow> path \<Rightarrow> string" where
  "found_line env folder_path =
     ''Found '' @ str_nat (length (rglob env folder_path ''*.md'')) @ '' markdown files in ''
       @ folder_path"

definition summary_line :: "nat \<Rightarrow> nat \<Rightarrow> string" where
  "summary_line successful failed =
     [CHR 0x0A] @ ''Summary: '' @ str_nat successful @ '' files converted successfully, ''
       @ str_nat failed @ '' files failed''"

fun read_nat :: "string \<Rightarrow> nat" where
  \<comment> \<open>The number a decimal numeral stands for.\<close>
  "read_nat s = foldl (\<lambda>a c. 10 * a + (of_char c - 48)) 0 s"

definition missing_world :: world where
  \<comment> \<open>Chrome is installed; the first file of the scan has vanished before it is read.\<close>
  "missing_world =
     \<lparr>files = [''/home/u/repo/b/x.md'' \<mapsto> ''B'', ''/usr/bin/google-chrome'' \<mapsto> ''ELF''],
      dirs = {}, stdout = [], trace = []\<rparr>"


definition firefox_env :: env where
  \<comment> \<open>As \<open>demo_env\<close>, with Firefox on the PATH.\<close>
  "firefox_env = demo_env\<lparr>which := (\<lambda>_. Some ''/usr/bin/firefox'')\<rparr>"

definition failing_chrome_env :: env where
  \<comment> \<open>Firefox on the PATH, and a Chrome that exits with status 1.\<close>
  "failing_chrome_env =
     demo_env\<lparr>which := (\<lambda>_. Some ''/usr/bin/firefox''),
              subprocess_run :=
                (\<lambda>cmd fs. (Some (Exn CalledProcessError ''returned non-zero exit status 1''), fs))\<rparr>"




section \<open>Properties\<close>

lemma rfind1_absent: "c \<notin> set p \<Longrightarrow> rfind1 c p = 0"
proof -
  assume "c \<notin> set p"
  then have h: "takeWhile (\<lambda>x. x \<noteq> c) (rev p) = rev p"
    by (intro takeWhile_eq_all_conv [THEN iffD2]) auto
  show ?thesis unfolding rfind1_def h by simp
qed

lemma rfind1_last: "c \<notin> set ys \<Longrightarrow> rfind1 c (xs @ c # ys) = Suc (length xs)"
proof -
  assume a: "c \<notin> set ys"
  have "takeWhile (\<lambda>x. x \<noteq> c) (rev ys @ c # rev xs) = rev ys"
    using a by (auto simp: takeWhile_tail)
  then show ?thesis by (simp add: rfind1_def)
qed

lemma basename_no_sep: "CHR ''/'' \<notin> set n \<Longrightarrow> basename n = n"
  by (simp add: basename_def rfind1_absent)

lemma basename_append_sep: "CHR ''/'' \<notin> set n \<Longrightarrow> basename (d @ CHR ''/'' # n) = n"
  by (simp add: basename_def rfind1_last)

lemma endswith_sep: "endswith a ''/'' \<Longrightarrow> \<exists>d. a = d @ ''/''"
  unfolding endswith_def
  by (metis append_take_drop_id)

lemma basename_join: "CHR ''/'' \<notin> set n \<Longrightarrow> basename (path_join d n) = n"
proof -
  assume a: "CHR ''/'' \<notin> set n"
  have ns: "\<not> startswith n ''/''"
    using a by (cases n) (auto simp: startswith_def)
  show ?thesis
  proof (cases "d = []")
    case True
    then show ?thesis using a ns by (simp add: path_join_def basename_no_sep)
  next
    case False
    show ?thesis
    proof (cases "endswith d ''/''")
      case True
      then obtain d' where "d = d' @ ''/''" using endswith_sep by blast
      then show ?thesis using a ns True basename_append_sep [OF a, of d']
        by (simp add: path_join_def)
    next
      case e: False
      then show ?thesis using a ns False basename_append_sep [OF a, of d]
        by (simp add: path_join_def)
    qed
  qed
qed

lemma splitext_stem:
  assumes "CHR ''/'' \<notin> set stem" "CHR ''/'' \<notin> set ext" "CHR ''.'' \<notin> set ext"
      "list_ex (\<lambda>x. x \<noteq> CHR ''.'') stem"
  shows "splitext (stem @ CHR ''.'' # ext) = (stem, CHR ''.'' # ext)"
proof -
  have s: "rfind1 (CHR ''/'') (stem @ CHR ''.'' # ext) = 0"
    using assms by (simp add: rfind1_absent)
  have d: "rfind1 (CHR ''.'') (stem @ CHR ''.'' # ext) = Suc (length stem)"
    using assms by (simp add: rfind1_last)
  show ?thesis using assms(4) by (simp add: splitext_def s d)
qed

lemma head_join:
  assumes "CHR ''/'' \<notin> set n"
  shows "take (rfind1 (CHR ''/'') (path_join D n)) (path_join D n)
         = (if D = [] then [] else if endswith D ''/'' then D else D @ ''/'')"
proof -
  have ns: "\<not> startswith n ''/''"
    using assms by (cases n) (auto simp: startswith_def)
  show ?thesis
  proof (cases "D = []")
    case True
    then show ?thesis using assms ns by (simp add: path_join_def rfind1_absent)
  next
    case False
    show ?thesis
    proof (cases "endswith D ''/''")
      case True
      then obtain d' where d: "D = d' @ ''/''" using endswith_sep by blast
      have "path_join D n = d' @ CHR ''/'' # n"
        using ns True d by (simp add: path_join_def)
      then show ?thesis using True False d rfind1_last [OF assms, of d'] by simp
    next
      case e: False
      have "path_join D n = D @ CHR ''/'' # n"
        using ns e False by (simp add: path_join_def)
      then show ?thesis using e False rfind1_last [OF assms, of D] by simp
    qed
  qed
qed

lemma dirname_join:
  "CHR ''/'' \<notin> set n \<Longrightarrow> CHR ''/'' \<notin> set m \<Longrightarrow>
   dirname (path_join D n) = dirname (path_join D m)"
  by (simp add: dirname_def head_join)

lemma endswith_append: "endswith (xs @ suf) suf"
  by (simp add: endswith_def)

lemma splitext_dots:
  assumes "\<not> list_ex (\<lambda>x. x \<noteq> CHR ''.'') stem" "CHR ''/'' \<notin> set ext" "CHR ''.'' \<notin> set ext"
  shows "splitext (stem @ CHR ''.'' # ext) = (stem @ CHR ''.'' # ext, [])"
proof -
  have ns: "CHR ''/'' \<notin> set stem" using assms(1) by (auto simp: list_ex_iff)
  have s: "rfind1 (CHR ''/'') (stem @ CHR ''.'' # ext) = 0"
    using ns assms(2) by (simp add: rfind1_absent)
  have d: "rfind1 (CHR ''.'') (stem @ CHR ''.'' # ext) = Suc (length stem)"
    using assms(3) by (simp add: rfind1_last)
  show ?thesis using assms(1) by (simp add: splitext_def s d)
qed

text \<open>
  C5, as amended. Pipeline 1 picks a directory entry \<open>stem.docx\<close> and writes to a path
  joined to the same directory; pipeline 2 maps a markdown file \<open>stem.md\<close> under any
  directory \<open>sub\<close> to a path joined to the output directory, which does not depend on
  \<open>sub\<close>. When the stem has a character that is not a dot, the extension is replaced:
  \<open>stem.md\<close> and \<open>stem.pdf\<close>. When the stem is empty or made of dots only,
  \<open>os.path.splitext\<close> keeps the name whole and the new extension is appended:
  \<open>stem.docx.md\<close> and \<open>stem.md.pdf\<close>.
\<close>

theorem output_path_derivation:
  assumes "CHR ''/'' \<notin> set stem"
  shows "endswith (stem @ ''.docx'') ''.docx''
       \<and> docx_md_path D (stem @ ''.docx'')
           = path_join D
               (if list_ex (\<lambda>x. x \<noteq> CHR ''.'') stem then stem @ ''.md''
                else stem @ ''.docx.md'')
       \<and> dirname (docx_md_path D (stem @ ''.docx'')) = dirname (path_join D (stem @ ''.docx''))
       \<and> endswith (stem @ ''.md'') ''.md''
       \<and> pdf_path_of out (path_join sub (stem @ ''.md''))
           = path_join out
               (if list_ex (\<lambda>x. x \<noteq> CHR ''.'') stem then stem @ ''.pdf''
                else stem @ ''.md.pdf'')"
proof -
  have e1: "splitext (stem @ ''.docx'')
              = (if list_ex (\<lambda>x. x \<noteq> CHR ''.'') stem then (stem, ''.docx'')
                 else (stem @ ''.docx'', []))"
    using splitext_stem [OF assms, of "''docx''"] splitext_dots [of stem "''docx''"] by simp
  have e2: "splitext (stem @ ''.md'')
              = (if list_ex (\<lambda>x. x \<noteq> CHR ''.'') stem then (stem, ''.md'')
                 else (stem @ ''.md'', []))"
    using splitext_stem [OF assms, of "''md''"] splitext_dots [of stem "''md''"] by simp
  have md: "docx_md_path D (stem @ ''.docx'')
           = path_join D
               (if list_ex (\<lambda>x. x \<noteq> CHR ''.'') stem then stem @ ''.md''
                else stem @ ''.docx.md'')"
    by (simp add: docx_md_path_def e1)
  have same: "dirname (docx_md_path D (stem @ ''.docx'')) = dirname (path_join D (stem @ ''.docx''))"
    unfolding md using assms by (intro dirname_join) simp_all
  have b: "basename (path_join sub (stem @ ''.md'')) = stem @ ''.md''"
    using assms by (intro basename_join) simp
  have pdf: "pdf_path_of out (path_join sub (stem @ ''.md''))
           = path_join out
               (if list_ex (\<lambda>x. x \<noteq> CHR ''.'') stem then stem @ ''.pdf''
                else stem @ ''.md.pdf'')"
    by (simp add: pdf_path_of_def b e2)
  show ?thesis
    using md same pdf endswith_append [of stem "''.docx''"] endswith_append [of stem "''.md''"]
    by simp
qed

theorem output_path_derivation_witness:
  "CHR ''/'' \<notin> set ''report''
   \<and> docx_md_path ''/home/u/docs'' ''report.docx'' = ''/home/u/docs/report.md''
   \<and> pdf_path_of ''/out'' ''notes/report.md'' = ''/out/report.pdf''
   \<and> CHR ''/'' \<notin> set ''..''
   \<and> docx_md_path ''/home/u/docs'' ''...docx'' = ''/home/u/docs/...docx.md''"
proof -
  have h1: "CHR ''/'' \<notin> set ''report''" by simp
  have h2: "CHR ''/'' \<notin> set ''..''" by simp
  have j1: "path_join ''/home/u/docs'' ''report.md'' = ''/home/u/docs/report.md''"
    by (simp add: path_join_def startswith_def endswith_def)
  have j2: "path_join ''notes'' ''report.md'' = ''notes/report.md''"
    by (simp add: path_join_def startswith_def endswith_def)
  have j3: "path_join ''/out'' ''report.pdf'' = ''/out/report.pdf''"
    by (simp add: path_join_def startswith_def endswith_def)
  have j4: "path_join ''/home/u/docs'' ''...docx.md'' = ''/home/u/docs/...docx.md''"
    by (simp add: path_join_def startswith_def endswith_def)
  show ?thesis
    using output_path_derivation [OF h1, of "''/home/u/docs''" "''/out''" "''notes''"]
      output_path_derivation [OF h2, of "''/home/u/docs''" "''/out''" "''notes''"]
      h1 h2 j1 j2 j3 j4
    by simp
qed

text \<open>
  C5 as stated fails for a name that is nothing but the extension: the entry \<open>.docx\<close> is
  converted to \<open>.docx.md\<close>, not to \<open>.md\<close>, and the file \<open>notes/.md\<close> to \<open>.md.pdf\<close>.
\<close>

theorem dotfile_keeps_its_name:
  "endswith ''.docx'' ''.docx''
   \<and> docx_md_path ''/docs'' ''.docx'' = ''/docs/.docx.md''
   \<and> docx_md_path ''/docs'' ''.docx'' \<noteq> ''/docs/.md''
   \<and> endswith ''notes/.md'' ''.md''
   \<and> pdf_path_of ''/out'' ''notes/.md'' = ''/out/.md.pdf''
   \<and> pdf_path_of ''/out'' ''notes/.md'' \<noteq> ''/out/.pdf''"
  by (simp add: docx_md_path_def pdf_path_of_def basename_def splitext_def rfind1_def
      path_join_def startswith_def endswith_def Let_def)

lemma shutil_unbound: "''shutil'' \<notin> set md2pdf_imports"
  by (simp add: md2pdf_imports_def)

lemma pr_ok: "prints_ok env \<Longrightarrow> pr env s w = (Inr (), print_line s w)"
  by (simp add: pr_def prints_ok_def)

lemma trace_pr: "trace (snd (pr env s w)) = trace w"
  by (simp add: pr_def print_line_def split: option.splits)

lemma files_pr: "files (snd (pr env s w)) = files w"
  by (simp add: pr_def print_line_def split: option.splits)

lemma dirs_pr: "dirs (snd (pr env s w)) = dirs w"
  by (simp add: pr_def print_line_def split: option.splits)

lemma firefox_attempt_raises:
  "''shutil'' \<notin> set names \<Longrightarrow> firefox_attempt names env html out w = (Inl shutil_error, w)"
  by (simp add: firefox_attempt_def try_except_def bind_def global_name_def
      raise_def shutil_error_def is_SubprocessError_def is_FileNotFoundError_def)


lemma chrome_attempt_no_chrome:
  "find (path_exists w) chrome_paths = None \<Longrightarrow> chrome_attempt env html out w = (Inr False, w)"
  by (simp add: chrome_attempt_def try_except_def)

lemma create_pdf_no_chrome:
  "find (path_exists w) chrome_paths = None \<Longrightarrow> ''shutil'' \<notin> set names \<Longrightarrow>
   create_pdf_from_html names env html out w = (Inl shutil_error, w)"
  by (simp add: create_pdf_from_html_def chrome_attempt_no_chrome bind_def
      firefox_attempt_raises)







lemma create_pdf_unbound:
  assumes "''shutil'' \<notin> set names"
  shows "create_pdf_from_html names env html out w =
     (case chrome_attempt env html out w of
        (Inr True, w') \<Rightarrow> (Inr True, w')
      | (Inr False, w') \<Rightarrow> (Inl shutil_error, w')
      | (Inl e, w') \<Rightarrow> (Inl e, w'))"
  by (simp add: create_pdf_from_html_def bind_def ret_def firefox_attempt_raises [OF assms]
      split: prod.splits sum.splits bool.splits)

lemma create_pdf_never_False:
  "''shutil'' \<notin> set names \<Longrightarrow> fst (create_pdf_from_html names env html out w) \<noteq> Inr False"
  by (simp add: create_pdf_unbound split: prod.splits sum.splits bool.splits)




lemma after_read_eq:
  "bind (open_read env p) (\<lambda>md_content.
     bind (of_sum (markdown_markdown env md_content extensions)) (\<lambda>html_body.
     bind (of_sum (template_render env (fst (splitext (basename p))) html_body)) k)) w
   = (case render_document env p (files w) of
        Inl e \<Rightarrow> (Inl e, log_call (ReadFile p) w)
      | Inr html \<Rightarrow> k html (log_call (ReadFile p) w))"
  by (simp add: bind_def open_read_def of_sum_def render_document_def split: sum.splits)

lemma convert_md_to_pdf_try_eq:
  "convert_md_to_pdf_try names env p out w =
     (case os_makedirs env out w of
        (Inl e, w1) \<Rightarrow> (Inl e, w1)
      | (Inr _, w1) \<Rightarrow>
          (case render_document env p (files w1) of
             Inl e \<Rightarrow> (Inl e, log_call (ReadFile p) w1)
           | Inr html \<Rightarrow>
               (case create_pdf_from_html names env html (pdf_path_of out p)
                       (log_call (ReadFile p) w1) of
                  (Inr True, w3) \<Rightarrow> bind (pr env (converted_line out p)) (\<lambda>_. ret True) w3
                | (r, w3) \<Rightarrow> (r, w3))))"
proof -
  have k: "\<And>html w2.
     bind (create_pdf_from_html names env html (pdf_path_of out p)) (\<lambda>result.
       if result
       then bind (pr env (converted_line out p)) (\<lambda>_. ret True)
       else ret False) w2
     = (case create_pdf_from_html names env html (pdf_path_of out p) w2 of
          (Inr True, w3) \<Rightarrow> bind (pr env (converted_line out p)) (\<lambda>_. ret True) w3
        | (r, w3) \<Rightarrow> (r, w3))"
  proof -
    fix html w2
    obtain r w3 where c: "create_pdf_from_html names env html (pdf_path_of out p) w2 = (r, w3)"
      by (cases "create_pdf_from_html names env html (pdf_path_of out p) w2")
    show "bind (create_pdf_from_html names env html (pdf_path_of out p)) (\<lambda>result.
       if result
       then bind (pr env (converted_line out p)) (\<lambda>_. ret True)
       else ret False) w2
     = (case create_pdf_from_html names env html (pdf_path_of out p) w2 of
          (Inr True, w3) \<Rightarrow> bind (pr env (converted_line out p)) (\<lambda>_. ret True) w3
        | (r, w3) \<Rightarrow> (r, w3))"
    proof (cases r)
      case (Inl e)
      then show ?thesis using c by (simp add: bind_def)
    next
      case (Inr b)
      then show ?thesis using c by (cases b) (simp_all add: bind_def ret_def)
    qed
  qed
  have "convert_md_to_pdf_try names env p out w =
     (case os_makedirs env out w of
        (Inl e, w1) \<Rightarrow> (Inl e, w1)
      | (Inr _, w1) \<Rightarrow>
          bind (open_read env p) (\<lambda>md_content.
          bind (of_sum (markdown_markdown env md_content extensions)) (\<lambda>html_body.
          bind (of_sum (template_render env (fst (splitext (basename p))) html_body)) (\<lambda>html.
          bind (create_pdf_from_html names env html (pdf_path_of out p)) (\<lambda>result.
            if result
            then bind (pr env (converted_line out p)) (\<lambda>_. ret True)
            else ret False)))) w1)"
    unfolding convert_md_to_pdf_try_def Let_def pdf_path_of_def converted_line_def
    by (simp add: bind_def [of "os_makedirs env out"] split: prod.splits sum.splits)
  then show ?thesis by (simp add: after_read_eq k split: prod.splits sum.splits)
qed

lemma convert_md_to_pdf_eq:
  "convert_md_to_pdf names env p out w =
     (case convert_md_to_pdf_try names env p out w of
        (Inr b, w') \<Rightarrow> (Inr b, w')
      | (Inl e, w') \<Rightarrow> bind (pr env (error_line p e)) (\<lambda>_. ret False) w')"
  by (simp add: convert_md_to_pdf_def try_except_def error_line_def split: prod.splits sum.splits)








lemma convert_all_Cons:
  "convert_all names env out (p # ps) s f w =
     (case convert_md_to_pdf names env p out w of
        (Inl e, w') \<Rightarrow> (Inl e, w')
      | (Inr b, w') \<Rightarrow>
          convert_all names env out ps (if b then Suc s else s) (if b then f else Suc f) w')"
  by (simp split: prod.splits sum.splits bool.splits)


lemma convert_all_counts:
  "fst (convert_all names env out ps s f w) = Inr (s', f') \<Longrightarrow>
     s' = s + length (filter (\<lambda>b. b) (outcomes names env out ps w))
     \<and> f' = f + length (filter Not (outcomes names env out ps w))
     \<and> length (outcomes names env out ps w) = length ps"
proof (induction ps arbitrary: s f w)
  case Nil
  then show ?case by simp
next
  case (Cons p ps)
  obtain r w1 where c: "convert_md_to_pdf names env p out w = (r, w1)"
    by (cases "convert_md_to_pdf names env p out w")
  show ?case
  proof (cases r)
    case (Inl e)
    then show ?thesis using Cons.prems c by (simp add: convert_all_Cons del: convert_all.simps)
  next
    case (Inr b)
    have "fst (convert_all names env out ps (if b then Suc s else s) (if b then f else Suc f) w1)
            = Inr (s', f')"
      using Cons.prems c Inr by (simp add: convert_all_Cons del: convert_all.simps)
    from Cons.IH [OF this] show ?thesis using c Inr by (cases b) simp_all
  qed
qed

lemma convert_returns:
  "prints_ok env \<Longrightarrow> \<exists>b. fst (convert_md_to_pdf names env p out w) = Inr b"
  by (auto simp: convert_md_to_pdf_eq bind_def pr_ok ret_def split: prod.splits sum.splits)

lemma convert_all_returns:
  "prints_ok env \<Longrightarrow> \<exists>pair. fst (convert_all names env out ps s f w) = Inr pair"
proof (induction ps arbitrary: s f w)
  case Nil
  then show ?case by simp
next
  case (Cons p ps)
  obtain r w1 where c: "convert_md_to_pdf names env p out w = (r, w1)"
    by (cases "convert_md_to_pdf names env p out w")
  obtain b where "r = Inr b" using convert_returns [OF Cons.prems, of names p out w] c by auto
  then show ?case using c Cons.IH [OF Cons.prems]
    by (simp add: convert_all_Cons del: convert_all.simps)
qed








lemma prints_ok_demo: "prints_ok demo_env"
  by (simp add: prints_ok_def demo_env_def)





lemma docx_loop_none:
  "filter (\<lambda>n. endswith n ''.docx'') names = [] \<Longrightarrow> docx_loop env d names ff w = (Inr ff, w)"
  by (induction names arbitrary: ff w) (simp_all split: if_splits)


lemma convert_docx_eq:
  "convert_docx_to_markdown env d w =
     (case print_error env (scanning_line env d) of
        Some e \<Rightarrow> (Inl e, w)
      | None \<Rightarrow>
          (case listdir env d of
             Inl e \<Rightarrow> (Inl e, print_line (scanning_line env d) w)
           | Inr names \<Rightarrow>
               (case docx_loop env d names False (print_line (scanning_line env d) w) of
                  (Inl e, w2) \<Rightarrow> (Inl e, w2)
                | (Inr found, w2) \<Rightarrow>
                    if found then (Inr found, w2)
                    else (case print_error env not_found_line of
                            None \<Rightarrow> (Inr found, print_line not_found_line w2)
                          | Some e \<Rightarrow> (Inl e, w2)))))"
  by (simp add: convert_docx_to_markdown_def scanning_line_def not_found_line_def bind_def
      pr_def of_sum_def ret_def split: option.splits sum.splits prod.splits)





text \<open>
  C7, as amended. On a directory with no entry that ends in \<open>.docx\<close>, no conversion is
  attempted, whatever happens. When its two prints succeed, and so whenever the function
  returns, it has printed exactly two lines: the scanning banner of line 29, then the "not
  found" message. A print that raises ends the function with the lines before it printed.
\<close>

theorem empty_directory_output:
  assumes "listdir env directory = Inr names"
      and "filter (\<lambda>n. endswith n ''.docx'') names = []"
  shows "trace (snd (convert_docx_to_markdown env directory w)) = trace w
       \<and> files (snd (convert_docx_to_markdown env directory w)) = files w
       \<and> (print_error env (scanning_line env directory) = None
            \<and> print_error env ''No .docx files found in the current directory.'' = None
          \<longrightarrow> convert_docx_to_markdown env directory w =
                 (Inr False,
                  print_line ''No .docx files found in the current directory.''
                    (print_line (scanning_line env directory) w)))
       \<and> (\<forall>found. fst (convert_docx_to_markdown env directory w) = Inr found \<longrightarrow>
             \<not> found
             \<and> stdout (snd (convert_docx_to_markdown env directory w)) =
                 stdout w @ [scanning_line env directory,
                             ''No .docx files found in the current directory.''])
       \<and> (\<forall>e. fst (convert_docx_to_markdown env directory w) = Inl e \<longrightarrow>
             stdout (snd (convert_docx_to_markdown env directory w)) = stdout w
             \<or> stdout (snd (convert_docx_to_markdown env directory w))
                 = stdout w @ [scanning_line env directory])"
  using assms
  by (auto simp: convert_docx_eq docx_loop_none not_found_line_def print_line_def
      split: option.splits)

theorem empty_directory_output_witness:
  "listdir txt_only_env ''/docs'' = Inr [''notes.txt'']
   \<and> filter (\<lambda>n. endswith n ''.docx'') [''notes.txt''] = []
   \<and> fst (convert_docx_to_markdown txt_only_env ''/docs'' demo_world) = Inr False
   \<and> stdout (snd (convert_docx_to_markdown txt_only_env ''/docs'' demo_world))
       = [''Scanning for .docx files in '' @ quoted ''/docs'' @ ''...'',
          ''No .docx files found in the current directory.'']
   \<and> trace (snd (convert_docx_to_markdown txt_only_env ''/docs'' demo_world)) = []"
proof -
  have h1: "listdir txt_only_env ''/docs'' = Inr [''notes.txt'']"
    by (simp add: txt_only_env_def)
  have h2: "filter (\<lambda>n. endswith n ''.docx'') [''notes.txt''] = []"
    by (simp add: endswith_def)
  have p: "print_error txt_only_env (scanning_line txt_only_env ''/docs'') = None"
    "print_error txt_only_env ''No .docx files found in the current directory.'' = None"
    by (simp_all add: txt_only_env_def demo_env_def)
  have b: "scanning_line txt_only_env ''/docs''
             = ''Scanning for .docx files in '' @ quoted ''/docs'' @ ''...''"
    by (simp add: scanning_line_def txt_only_env_def demo_env_def path_join_def startswith_def)
  have t: "trace demo_world = []" "stdout demo_world = []" by (simp_all add: demo_world_def)
  show ?thesis
    using empty_directory_output [OF h1 h2, of demo_world] h1 h2 p t
    unfolding b by (simp add: print_line_def)
qed

text \<open>
  C7 as stated fails: on an empty directory the "not found" message is the second line of
  output, after the scanning banner.
\<close>

theorem not_found_is_not_the_only_output:
  "listdir empty_dir_env ''/docs'' = Inr []
   \<and> stdout demo_world = []
   \<and> stdout (snd (convert_docx_to_markdown empty_dir_env ''/docs'' demo_world))
       = [''Scanning for .docx files in '' @ quoted ''/docs'' @ ''...'',
          ''No .docx files found in the current directory.'']
   \<and> stdout (snd (convert_docx_to_markdown empty_dir_env ''/docs'' demo_world))
       \<noteq> [''No .docx files found in the current directory.'']"
  by (simp add: convert_docx_eq scanning_line_def not_found_line_def empty_dir_env_def
      demo_env_def demo_world_def print_line_def path_join_def startswith_def endswith_def)

lemma digit_value: "n < 10 \<Longrightarrow> of_char (''0123456789'' ! n) - 48 = n"
proof -
  assume n: "n < 10"
  have "list_all (\<lambda>k. of_char (''0123456789'' ! k) - 48 = k) [0..<10]"
    by code_simp
  then show ?thesis using n by (simp add: list_all_iff)
qed

lemma read_nat_str_nat: "read_nat (str_nat n) = n"
proof (induction n rule: str_nat.induct)
  case (1 n)
  show ?case
  proof (cases "n < 10")
    case True
    then show ?thesis by (simp add: str_nat.simps [of n] digit_value)
  next
    case False
    have "read_nat (str_nat n) = 10 * read_nat (str_nat (n div 10))
            + (of_char (''0123456789'' ! (n mod 10)) - 48)"
      using False by (simp add: str_nat.simps [of n])
    also have "\<dots> = 10 * (n div 10) + n mod 10"
      using "1.IH" False by (simp add: digit_value)
    finally show ?thesis by simp
  qed
qed

lemma scan_and_convert_eq:
  "scan_and_convert names env folder out w =
     (case print_error env (found_line env folder) of
        Some e \<Rightarrow> (Inl e, w)
      | None \<Rightarrow>
          (case convert_all names env out (rglob env folder ''*.md'') 0 0
                  (print_line (found_line env folder) w) of
             (Inl e, w2) \<Rightarrow> (Inl e, w2)
           | (Inr (s, f), w2) \<Rightarrow>
               (case print_error env (summary_line s f) of
                  None \<Rightarrow> (Inr (s, f), print_line (summary_line s f) w2)
                | Some e \<Rightarrow> (Inl e, w2))))"
  by (simp add: scan_and_convert_def found_line_def summary_line_def Let_def bind_def pr_def
      ret_def split: option.splits prod.splits sum.splits)


lemma scan_returned:
  assumes "fst (scan_and_convert names env folder out w) = Inr (s, f)"
  shows "fst (convert_all names env out (rglob env folder ''*.md'') 0 0
                (print_line (found_line env folder) w)) = Inr (s, f)
       \<and> stdout (snd (scan_and_convert names env folder out w)) \<noteq> []
       \<and> last (stdout (snd (scan_and_convert names env folder out w))) = summary_line s f"
  using assms
  by (auto simp: scan_and_convert_eq print_line_def split: prod.splits sum.splits option.splits)

lemma scan_returns:
  assumes "prints_ok env"
  shows "\<exists>s f. fst (scan_and_convert names env folder out w) = Inr (s, f)"
proof -
  obtain pair where "fst (convert_all names env out (rglob env folder ''*.md'') 0 0
                (print_line (found_line env folder) w)) = Inr pair"
    using convert_all_returns [OF assms] by blast
  then show ?thesis using assms
    by (cases "convert_all names env out (rglob env folder ''*.md'') 0 0
                (print_line (found_line env folder) w)"; cases pair)
       (auto simp: scan_and_convert_eq prints_ok_def)
qed

lemmas create_pdf_program = create_pdf_unbound [OF shutil_unbound]

lemmas eval_defs =
  convert_md_to_pdf_eq convert_md_to_pdf_try_eq os_makedirs_def render_document_def
  create_pdf_program chrome_attempt_def try_except_def bind_def
  run_def pr_def ret_def chrome_cmd_def chrome_paths_def path_exists_def
  log_call_def print_line_def pdf_path_of_def basename_def splitext_def rfind1_def
  path_join_def startswith_def endswith_def Let_def
  is_SubprocessError_def is_FileNotFoundError_def
  error_line_def converted_line_def created_line_def ballot_x_def check_mark_def

text \<open>
  C10. Whenever \<open>scan_and_convert\<close> returns a pair, the pair adds up to the number of paths
  the recursive scan found: \<open>successful\<close> counts the conversions that returned \<open>True\<close>
  and \<open>failed\<close> those that returned \<open>False\<close>, one outcome per path; the last line printed
  is the summary line of line 307 with exactly the returned values, whose decimal numerals
  read back as these values. The function returns a pair in every run in which no print
  raises.
\<close>

theorem scan_counts_partition:
  "(\<forall>successful failed.
      fst (scan_and_convert md2pdf_imports env folder out w) = Inr (successful, failed) \<longrightarrow>
        successful + failed = length (rglob env folder ''*.md'')
        \<and> length (outcomes md2pdf_imports env out (rglob env folder ''*.md'')
                    (print_line (found_line env folder) w))
            = length (rglob env folder ''*.md'')
        \<and> successful
            = length (filter (\<lambda>b. b)
                (outcomes md2pdf_imports env out (rglob env folder ''*.md'')
                   (print_line (found_line env folder) w)))
        \<and> failed
            = length (filter Not
                (outcomes md2pdf_imports env out (rglob env folder ''*.md'')
                   (print_line (found_line env folder) w)))
        \<and> stdout (snd (scan_and_convert md2pdf_imports env folder out w)) \<noteq> []
        \<and> last (stdout (snd (scan_and_convert md2pdf_imports env folder out w)))
            = [CHR 0x0A] @ ''Summary: '' @ str_nat successful
                @ '' files converted successfully, '' @ str_nat failed @ '' files failed''
        \<and> read_nat (str_nat successful) = successful
        \<and> read_nat (str_nat failed) = failed)
   \<and> (prints_ok env \<longrightarrow>
        (\<exists>successful failed.
           fst (scan_and_convert md2pdf_imports env folder out w) = Inr (successful, failed)))"
proof -
  let ?ps = "rglob env folder ''*.md''"
  let ?w1 = "print_line (found_line env folder) w"
  let ?rs = "outcomes md2pdf_imports env out ?ps ?w1"
  have a: "\<And>s f. fst (scan_and_convert md2pdf_imports env folder out w) = Inr (s, f) \<Longrightarrow>
        s + f = length ?ps \<and> length ?rs = length ?ps
        \<and> s = length (filter (\<lambda>b. b) ?rs) \<and> f = length (filter Not ?rs)
        \<and> stdout (snd (scan_and_convert md2pdf_imports env folder out w)) \<noteq> []
        \<and> last (stdout (snd (scan_and_convert md2pdf_imports env folder out w)))
            = [CHR 0x0A] @ ''Summary: '' @ str_nat s
                @ '' files converted successfully, '' @ str_nat f @ '' files failed''"
  proof -
    fix s f
    assume r: "fst (scan_and_convert md2pdf_imports env folder out w) = Inr (s, f)"
    have c: "fst (convert_all md2pdf_imports env out ?ps 0 0 ?w1) = Inr (s, f)"
      and o: "stdout (snd (scan_and_convert md2pdf_imports env folder out w)) \<noteq> []"
      and l: "last (stdout (snd (scan_and_convert md2pdf_imports env folder out w)))
                = summary_line s f"
      using scan_returned [OF r] by simp_all
    have n: "s = length (filter (\<lambda>b. b) ?rs)" "f = length (filter Not ?rs)"
      "length ?rs = length ?ps"
      using convert_all_counts [OF c] by simp_all
    have "length (filter (\<lambda>b. b) ?rs) + length (filter Not ?rs) = length ?rs"
      using sum_length_filter_compl [of "\<lambda>b. b" ?rs] by simp
    then show "s + f = length ?ps \<and> length ?rs = length ?ps
        \<and> s = length (filter (\<lambda>b. b) ?rs) \<and> f = length (filter Not ?rs)
        \<and> stdout (snd (scan_and_convert md2pdf_imports env folder out w)) \<noteq> []
        \<and> last (stdout (snd (scan_and_convert md2pdf_imports env folder out w)))
            = [CHR 0x0A] @ ''Summary: '' @ str_nat s
                @ '' files converted successfully, '' @ str_nat f @ '' files failed''"
      using n o l by (simp add: summary_line_def)
  qed
  have b: "prints_ok env \<longrightarrow>
        (\<exists>s f. fst (scan_and_convert md2pdf_imports env folder out w) = Inr (s, f))"
    using scan_returns by blast
  show ?thesis using a b read_nat_str_nat by blast
qed

theorem scan_counts_partition_witness:
  "prints_ok demo_env
   \<and> length (rglob demo_env ''/home/u/repo'' ''*.md'') = 2
   \<and> fst (scan_and_convert md2pdf_imports demo_env ''/home/u/repo'' ''/out'' missing_world)
       = Inr (1, 1)
   \<and> last (stdout (snd (scan_and_convert md2pdf_imports demo_env ''/home/u/repo'' ''/out''
                           missing_world)))
       = CHR 0x0A # ''Summary: 1 files converted successfully, 1 files failed''
   \<and> fst (scan_and_convert md2pdf_imports demo_env ''/home/u/repo'' ''/out'' demo_world)
       = Inr (2, 0)
   \<and> last (stdout (snd (scan_and_convert md2pdf_imports demo_env ''/home/u/repo'' ''/out''
                           demo_world)))
       = CHR 0x0A # ''Summary: 2 files converted successfully, 0 files failed''"
proof -
  have n: "length (rglob demo_env ''/home/u/repo'' ''*.md'') = 2" by (simp add: demo_env_def)
  have r1: "fst (scan_and_convert md2pdf_imports demo_env ''/home/u/repo'' ''/out'' missing_world)
       = Inr (1, 1)"
    by (simp add: scan_and_convert_eq eval_defs demo_env_def missing_world_def)
  have r2: "fst (scan_and_convert md2pdf_imports demo_env ''/home/u/repo'' ''/out'' demo_world)
       = Inr (2, 0)"
    by (simp add: scan_and_convert_eq eval_defs demo_env_def demo_world_def)
  have d: "str_nat 0 = ''0''" "str_nat 1 = ''1''" "str_nat 2 = ''2''"
    by (simp_all add: str_nat.simps)
  show ?thesis
    using scan_counts_partition
      [where env = demo_env and folder = "''/home/u/repo''" and out = "''/out''"
         and w = missing_world]
      scan_counts_partition
      [where env = demo_env and folder = "''/home/u/repo''" and out = "''/out''"
         and w = demo_world]
      prints_ok_demo n r1 r2 d
    by simp
qed












text \<open>
  C1, at a failing input. With no Chrome installed and Firefox on the PATH, the fallback is
  never attempted: line 218 evaluates the name \<open>shutil\<close>, which the module does not import,
  and the \<open>NameError\<close> leaves \<open>create_pdf_from_html\<close> before any Firefox command is run.
  The same happens after a Chrome run that fails. The file is counted as failed.
\<close>

theorem firefox_fallback_never_runs:
  "find (path_exists bare_world) chrome_paths = None
   \<and> which firefox_env ''firefox'' = Some ''/usr/bin/firefox''
   \<and> create_pdf_from_html md2pdf_imports firefox_env ''<title>x</title><p>A</p>''
        ''/out/x.pdf'' bare_world
       = (Inl (Exn NameError (''name '' @ quoted ''shutil'' @ '' is not defined'')), bare_world)
   \<and> fst (convert_md_to_pdf md2pdf_imports firefox_env ''/home/u/repo/a/x.md'' ''/out''
            bare_world) = Inr False
   \<and> trace (snd (convert_md_to_pdf md2pdf_imports firefox_env ''/home/u/repo/a/x.md'' ''/out''
                    bare_world))
       = [Makedirs ''/out'' True, ReadFile ''/home/u/repo/a/x.md'']
   \<and> stdout (snd (convert_md_to_pdf md2pdf_imports firefox_env ''/home/u/repo/a/x.md'' ''/out''
                     bare_world))
       = [ballot_x @ '' Error converting /home/u/repo/a/x.md: name '' @ quoted ''shutil''
            @ '' is not defined'']
   \<and> fst (convert_md_to_pdf md2pdf_imports failing_chrome_env ''/home/u/repo/a/x.md'' ''/out''
            demo_world)
       = Inr False
   \<and> trace (snd (convert_md_to_pdf md2pdf_imports failing_chrome_env ''/home/u/repo/a/x.md''
                    ''/out'' demo_world))
       = [Makedirs ''/out'' True, ReadFile ''/home/u/repo/a/x.md'',
          Run [''/usr/bin/google-chrome'', ''--headless'', ''--disable-gpu'', ''--no-sandbox'',
               ''--print-to-pdf=/out/x.pdf'', ''data:text/html;base64,<title>x</title><p>A</p>'']]
   \<and> stdout (snd (convert_md_to_pdf md2pdf_imports failing_chrome_env ''/home/u/repo/a/x.md''
                     ''/out'' demo_world))
       = [''Chrome conversion failed: returned non-zero exit status 1'',
          ballot_x @ '' Error converting /home/u/repo/a/x.md: name '' @ quoted ''shutil''
            @ '' is not defined'']"
proof -
  have h1: "find (path_exists bare_world) chrome_paths = None"
    by (simp add: path_exists_def chrome_paths_def bare_world_def)
  have a: "create_pdf_from_html md2pdf_imports firefox_env ''<title>x</title><p>A</p>''
             ''/out/x.pdf'' bare_world
       = (Inl (Exn NameError (''name '' @ quoted ''shutil'' @ '' is not defined'')), bare_world)"
    using create_pdf_no_chrome [OF h1 shutil_unbound, of firefox_env]
    by (simp add: shutil_error_def)
  have b: "convert_md_to_pdf md2pdf_imports firefox_env ''/home/u/repo/a/x.md'' ''/out'' bare_world
       = (Inr False,
          print_line (ballot_x @ '' Error converting /home/u/repo/a/x.md: name ''
                      @ quoted ''shutil'' @ '' is not defined'')
            (log_call (ReadFile ''/home/u/repo/a/x.md'')
               (log_call (Makedirs ''/out'' True) bare_world)))"
    by (simp add: eval_defs firefox_env_def demo_env_def bare_world_def shutil_error_def)
  have c: "convert_md_to_pdf md2pdf_imports failing_chrome_env ''/home/u/repo/a/x.md'' ''/out''
             demo_world
       = (Inr False,
          print_line (ballot_x @ '' Error converting /home/u/repo/a/x.md: name ''
                      @ quoted ''shutil'' @ '' is not defined'')
            (print_line ''Chrome conversion failed: returned non-zero exit status 1''
               (log_call
                  (Run [''/usr/bin/google-chrome'', ''--headless'', ''--disable-gpu'',
                        ''--no-sandbox'', ''--print-to-pdf=/out/x.pdf'',
                        ''data:text/html;base64,<title>x</title><p>A</p>''])
                  (log_call (ReadFile ''/home/u/repo/a/x.md'')
                     (log_call (Makedirs ''/out'' True)
                        (demo_world\<lparr>dirs := {''/out''}\<rparr>))))))"
    by (simp add: eval_defs failing_chrome_env_def demo_env_def demo_world_def shutil_error_def)
  show ?thesis
    unfolding b c using h1 a
    by (simp add: print_line_def log_call_def firefox_env_def bare_world_def demo_world_def
        ballot_x_def)
qed

text \<open>
  What the fallback would do if the module imported \<open>shutil\<close>: with the name bound, no
  Chrome installed and Firefox on the PATH, the same conversion runs Firefox and returns
  \<open>True\<close>.
\<close>

lemma firefox_runs_when_shutil_is_bound:
  "fst (convert_md_to_pdf (''shutil'' # md2pdf_imports) firefox_env ''/home/u/repo/a/x.md''
          ''/out'' bare_world) = Inr True
   \<and> trace (snd (convert_md_to_pdf (''shutil'' # md2pdf_imports) firefox_env
                    ''/home/u/repo/a/x.md'' ''/out'' bare_world))
       = [Makedirs ''/out'' True, ReadFile ''/home/u/repo/a/x.md'', WriteFile ''temp.html'',
          Run [''firefox'', ''--headless'', ''--print-to-pdf=/out/x.pdf'',
               ''/home/u/repo/tools/pdf/temp.html''],
          Remove ''temp.html'']"
  by (simp add: convert_md_to_pdf_eq convert_md_to_pdf_try_eq os_makedirs_def
      render_document_def create_pdf_from_html_def chrome_attempt_no_chrome
      firefox_attempt_def global_name_def open_write_def os_remove_def firefox_cmd_def
      try_except_def bind_def run_def pr_def ret_def chrome_paths_def path_exists_def
      log_call_def print_line_def pdf_path_of_def basename_def splitext_def rfind1_def
      path_join_def startswith_def endswith_def Let_def
      firefox_env_def demo_env_def bare_world_def)












end
